theory Spec2Isabelle
  imports Complex_Main "HOL-Library.Char_ord" "HOL-Library.List_Lexorder"
begin

section \<open>Common vocabulary\<close>

text \<open>
  The dashboard is three Streamlit scripts. Each script is modelled by what one run of it
  does: the elements it puts on the page, in order, and how the run ends (it reaches the
  end of the script, an exception leaves it, or the framework is told to run another
  page). The decorators \<open>st.experimental_memo\<close> and \<open>st.experimental_singleton\<close> only
  cache a function's result; a function is modelled by its body.

  A Python \<open>str\<close> is a \<^typ>\<open>string\<close> holding its UTF-8 bytes, so \<open>.encode("utf-8")\<close>
  is the identity on this representation; every delimiter the program uses is ASCII.
\<close>

type_synonym path = string
type_synonym bytes = string

datatype error = FileNotFoundError | KeyError | TypeError | ValueError | LibraryError string

section \<open>Home page: \<open>streamlit_app.py\<close>\<close>

record page =
  page_path :: path
  page_name :: string
  page_icon :: string

text \<open>The list handed to \<open>show_pages\<close>; the icons are the UTF-8 bytes of the emoji.\<close>

definition show_pages :: "page list" where
  "show_pages =
     [\<lparr>page_path = ''streamlit_app.py'', page_name = ''Home'',
        page_icon = [CHR 0xF0, CHR 0x9F, CHR 0x8F, CHR 0xA0]\<rparr>,
      \<lparr>page_path = ''app_pages/Reference_dataset.py'', page_name = ''Reference dataset'',
        page_icon = [CHR 0xF0, CHR 0x9F, CHR 0x93, CHR 0x88]\<rparr>,
      \<lparr>page_path = ''app_pages/Phylogeny.py'', page_name = ''Phylogeny'',
        page_icon = [CHR 0xF0, CHR 0x9F, CHR 0xA7, CHR 0xAC]\<rparr>,
      \<lparr>page_path = ''app_pages/Genotype_lineage.py'', page_name = ''Genotype lineage'',
        page_icon = [CHR 0xF0, CHR 0x9F, CHR 0x93, CHR 0x8A]\<rparr>]"

text \<open>
  How a run of the home script ends when a button was pressed: \<open>switch_page\<close> never
  returns. It raises the framework's rerun request for the page whose name matches, or
  \<open>ValueError\<close> when no page does.
\<close>

datatype stop = Rerun page | Raised error

definition lower_char :: "char \<Rightarrow> char" where
  "lower_char c =
     (let n = (of_char c :: nat) in if 65 \<le> n \<and> n \<le> 90 then char_of (n + 32) else c)"

text \<open>\<open>name.lower().replace("_", " ")\<close>, on ASCII names.\<close>

definition standardize_name :: "string \<Rightarrow> string" where
  "standardize_name name =
     map (\<lambda>c. if c = CHR ''_'' then CHR '' '' else c) (map lower_char name)"

definition switch_page :: "string \<Rightarrow> stop" where
  "switch_page name =
     (case filter (\<lambda>p. standardize_name (page_name p) = standardize_name name) show_pages of
        [] \<Rightarrow> Raised ValueError
      | p # _ \<Rightarrow> Rerun p)"

text \<open>
  \<open>buttons()\<close>: \<open>clicked label\<close> is what \<open>st.button(label)\<close> returns in this run. The
  result is the labels of the buttons drawn, in column order, and how the run ends:
  \<open>None\<close> when the script runs to its end and the page stays.
\<close>

definition buttons :: "(string \<Rightarrow> bool) \<Rightarrow> string list \<times> stop option" where
  "buttons clicked =
     (let genotype_user_data = clicked ''Genotype VCF'';
          phylogeny = clicked ''Explore Phylogeny'';
          dataset = clicked ''Reference Dataset''
      in ([''Genotype VCF'', ''Explore Phylogeny'', ''Reference Dataset''],
          if genotype_user_data then Some (switch_page ''genotype lineage'')
          else if phylogeny then Some (switch_page ''phylogeny'')
          else if dataset then Some (switch_page ''reference dataset'')
          else None))"

section \<open>Phylogeny page: \<open>app_pages/Phylogeny.py\<close>\<close>









section \<open>Reference dataset page: \<open>app_pages/Reference_dataset.py\<close>\<close>

subsection \<open>Tables and their export\<close>

text \<open>
  A dataframe as the export and the grid see it: column labels and rows of cells. A cell is
  missing (\<open>NaN\<close> or \<open>None\<close>), text, or an integer; floating-point cells are left out of
  the model.
\<close>

datatype cell = Null | Str string | Integer int

record frame =
  columns :: "string list"
  rows :: "cell list list"

definition digit_char :: "nat \<Rightarrow> char" where
  "digit_char d = char_of (48 + d)"

fun digits :: "nat \<Rightarrow> string" where
  "digits n = (if n < 10 then [digit_char n] else digits (n div 10) @ [digit_char (n mod 10)])"

text \<open>\<open>str(i)\<close> for a Python integer.\<close>

definition py_str_int :: "int \<Rightarrow> string" where
  "py_str_int i = (if i < 0 then CHR ''-'' # digits (nat (- i)) else digits (nat i))"












subsection \<open>The sample table\<close>

text \<open>
  The statistics and the map read the table of \<open>load_dataset\<close> by column name. Its rows are
  records of the columns the program reads: the sample name and the country are text or
  missing, the lineage levels are cells, and the measurements are numbers. The first seven
  columns are the ones \<open>get_mapping_data\<close> selects, so that selection is
  \<open>sample_info.truncate\<close>.
\<close>

record sample_info =
  Sample :: "string option"
  Country_of_isolation :: "string option"
  level_1 :: cell
  level_2 :: cell
  level_3 :: cell
  level_4 :: cell
  level_5 :: cell

text \<open>
  A numeric cell: \<open>NaN\<close>, an integer, or a finite float, which is a rational number.
\<close>

datatype number = NaN | IntV int | FloatV rat

record sample = sample_info +
  no_of_SNPs :: number
  pct_GC :: number
  Total_sequences :: number
  Average_sequence_length :: number
  pct_Reads_mapped :: number
  Average_coverage_depth :: number

subsection \<open>Map data: \<open>get_mapping_data\<close>\<close>

text \<open>
  The lookup tables: \<open>countries.csv\<close> (coordinates of any type \<open>'c\<close>: the program only
  passes them on), \<open>regions.csv\<close> after \<open>usecols\<close> and the renaming of \<open>region\<close>, and
  the country shapes of the GeoJSON file. The fields carry a prefix because the tables
  share column names.
\<close>

record 'c country_coords =
  cc_country :: "string option"
  cc_latitude :: 'c
  cc_longitude :: 'c
  cc_name :: "string option"

record region =
  rg_name :: "string option"
  rg_Region :: "string option"

record 'g country_shape =
  shp_id :: "string option"
  shp_name :: "string option"
  shp_geometry :: "'g option"

text \<open>The rows of the two tables \<open>get_mapping_data\<close> returns.\<close>

record 'c point = sample_info +
  latitude :: "'c option"
  longitude :: "'c option"
  Region :: "string option"

record 'g sample_poly =
  Country :: string
  geometry :: 'g
  Number_of_Samples :: int

text \<open>
  \<open>pd.merge(left, right, how="left", left_on=..., right_on=...)\<close>: every left row, in
  order, once with each right row of the same key, in the right table's order, or once with
  no partner when there is none (the right columns are then missing). Missing keys match
  each other, as in pandas.
\<close>

definition merge_left ::
  "('l \<Rightarrow> 'k) \<Rightarrow> ('r \<Rightarrow> 'k) \<Rightarrow> 'l list \<Rightarrow> 'r list \<Rightarrow> ('l \<times> 'r option) list" where
  "merge_left left_on right_on left right =
     concat (map (\<lambda>l. case filter (\<lambda>r. right_on r = left_on l) right of
                          [] \<Rightarrow> [(l, None)]
                        | m # ms \<Rightarrow> map (\<lambda>r. (l, Some r)) (m # ms)) left)"

text \<open>The \<open>name\<close> column of the first merge.\<close>

definition merged_name :: "sample_info \<times> 'c country_coords option \<Rightarrow> string option" where
  "merged_name m = (case snd m of None \<Rightarrow> None | Some c \<Rightarrow> cc_name c)"

text \<open>
  The point table: the left merge with the coordinates, the rows whose \<open>name\<close> is not
  missing, the left merge with the regions on \<open>name\<close>. The columns \<open>country\<close> and
  \<open>name\<close>, which the program drops, are left out when the rows are built.
\<close>

definition smp_data_of ::
  "'a sample_info_scheme list \<Rightarrow> 'c country_coords list \<Rightarrow> region list \<Rightarrow> 'c point list" where
  "smp_data_of dataset countries regions =
     (let merged = merge_left Country_of_isolation cc_name
                     (map sample_info.truncate dataset) countries;
          named = filter (\<lambda>m. merged_name m \<noteq> None) merged;
          with_region = merge_left merged_name rg_name named regions
      in map (\<lambda>((s, c), r).
            \<lparr>Sample = Sample s, Country_of_isolation = Country_of_isolation s,
             level_1 = level_1 s, level_2 = level_2 s, level_3 = level_3 s,
             level_4 = level_4 s, level_5 = level_5 s,
             latitude = map_option cc_latitude c, longitude = map_option cc_longitude c,
             Region = (case r of None \<Rightarrow> None | Some g \<Rightarrow> rg_Region g)\<rparr>) with_region)"

text \<open>
  \<open>groupby(["Country of isolation"]).count()\<close>: one row for each country that occurs, in
  sorted order, a missing country forming no group; the count is the number of rows of the
  group whose \<open>Sample\<close> is not missing. (The renaming of \<open>country of isolation\<close> names no
  column and changes nothing.)
\<close>

definition group_keys :: "string option list \<Rightarrow> string list" where
  "group_keys ks = sort (remdups (concat (map (\<lambda>k. case k of None \<Rightarrow> [] | Some v \<Rightarrow> [v]) ks)))"

definition cnt_samples :: "'a sample_info_scheme list \<Rightarrow> (string \<times> nat) list" where
  "cnt_samples dataset =
     map (\<lambda>k. (k, length (filter (\<lambda>r. Country_of_isolation r = Some k \<and> Sample r \<noteq> None) dataset)))
       (group_keys (map Country_of_isolation dataset))"

text \<open>
  The polygon table: the shapes merged with the counts, the rows with any missing value
  dropped, the count as an integer.
\<close>

definition cnt_samples_poly_of ::
  "'a sample_info_scheme list \<Rightarrow> 'g country_shape list \<Rightarrow> 'g sample_poly list" where
  "cnt_samples_poly_of dataset country_shapes =
     concat (map (\<lambda>(sh, m).
        case (shp_id sh, shp_name sh, shp_geometry sh, m) of
          (Some i, Some nm, Some g, Some (k, n)) \<Rightarrow>
             [\<lparr>Country = nm, geometry = g, Number_of_Samples = int n\<rparr>]
        | _ \<Rightarrow> [])
       (merge_left shp_name (\<lambda>kn. Some (fst kn)) country_shapes (cnt_samples dataset)))"

definition get_mapping_data ::
  "'a sample_info_scheme list \<Rightarrow> 'g country_shape list \<Rightarrow> region list \<Rightarrow> 'c country_coords list
     \<Rightarrow> 'c point list \<times> 'g sample_poly list" where
  "get_mapping_data dataset country_shapes regions countries =
     (smp_data_of dataset countries regions, cnt_samples_poly_of dataset country_shapes)"

subsection \<open>Page elements\<close>

text \<open>
  What a run puts on the page. A metric shows an integer, a float rounded to two places
  (the rounding is floating-point arithmetic and stays symbolic) or a string. A download
  button is its label, its data and its file name. Icons are the UTF-8 bytes of the emoji.
  Layout calls (columns, vertical space, spinner) draw nothing of their own and are left
  out.
\<close>

datatype metric_value = IntValue int | Round2Value number | StrValue string

datatype element =
    AgGrid frame
  | DownloadButton string bytes string
  | Subheader string
  | Info string string
  | Warning string string
  | Dataframe "nat list" frame
  | Metric string metric_value


definition warning_sign :: string where
  "warning_sign = [CHR 0xE2, CHR 0x9A, CHR 0xA0, CHR 0xEF, CHR 0xB8, CHR 0x8F]"


subsection \<open>The dataset grid: \<open>show_dataset\<close>\<close>





subsection \<open>The statistics of one sample: \<open>sample_stats\<close>\<close>

text \<open>
  Statements run in order: each step shows an element or raises, and a raise ends the run.
\<close>

fun run_steps :: "(error + element) list \<Rightarrow> element list \<times> error option" where
  "run_steps [] = ([], None)"
| "run_steps (Inl e # steps) = ([], Some e)"
| "run_steps (Inr x # steps) = (let (xs, raised) = run_steps steps in (x # xs, raised))"

text \<open>
  \<open>int(series)\<close> and \<open>float(round(series, 2))\<close> raise \<open>TypeError\<close> unless the series has
  exactly one element; \<open>int\<close> of \<open>NaN\<close> raises \<open>ValueError\<close>, and \<open>int\<close> of a float
  truncates towards zero. \<open>series.item()\<close> raises \<open>ValueError\<close> unless the series has
  exactly one element.
\<close>

fun series_int :: "number list \<Rightarrow> error + metric_value" where
  "series_int [NaN] = Inl ValueError"
| "series_int [IntV i] = Inr (IntValue i)"
| "series_int [FloatV q] = Inr (IntValue (if 0 \<le> q then \<lfloor>q\<rfloor> else \<lceil>q\<rceil>))"
| "series_int xs = Inl TypeError"

fun series_float_round2 :: "number list \<Rightarrow> error + metric_value" where
  "series_float_round2 [x] = Inr (Round2Value x)"
| "series_float_round2 xs = Inl TypeError"

fun series_item :: "'a list \<Rightarrow> error + 'a" where
  "series_item [x] = Inr x"
| "series_item xs = Inl ValueError"

fun py_str :: "cell \<Rightarrow> string" where
  "py_str Null = ''nan''"
| "py_str (Str s) = s"
| "py_str (Integer i) = py_str_int i"

definition metric :: "string \<Rightarrow> error + metric_value \<Rightarrow> error + element" where
  "metric label v = (case v of Inl e \<Rightarrow> Inl e | Inr x \<Rightarrow> Inr (Metric label x))"

definition str_item :: "cell list \<Rightarrow> error + metric_value" where
  "str_item xs = (case series_item xs of Inl e \<Rightarrow> Inl e | Inr x \<Rightarrow> Inr (StrValue (py_str x)))"

definition cell_of_text :: "string option \<Rightarrow> cell" where
  "cell_of_text t = (case t of None \<Rightarrow> Null | Some s \<Rightarrow> Str s)"

text \<open>
  \<open>dataset[dataset["Sample"] == sample_filter]\<close>, where \<open>sample_filter\<close> is what the
  select box returned: one of the values of the \<open>Sample\<close> column, \<open>None\<close> standing for a
  missing value and for the box without options. A missing value equals nothing.
\<close>

definition select_sample :: "sample list \<Rightarrow> string option \<Rightarrow> sample list" where
  "select_sample dataset sample_filter =
     filter (\<lambda>r. Sample r \<noteq> None \<and> Sample r = sample_filter) dataset"

text \<open>
  \<open>vcf_to_df\<close>: \<open>files\<close> maps the paths of the binary files on disk to their bytes, and
  \<open>load_vcf\<close> is the parser of the VCF library, a parameter of the model. A path with no
  file raises \<open>FileNotFoundError\<close>. The index of the table is moved to start at 1.
\<close>

definition vcf_to_df ::
  "(bytes \<Rightarrow> error + frame) \<Rightarrow> (path \<rightharpoonup> bytes) \<Rightarrow> path \<Rightarrow> error + nat list \<times> frame" where
  "vcf_to_df load_vcf files vcf_path =
     (case files vcf_path of
        None \<Rightarrow> Inl FileNotFoundError
      | Some b \<Rightarrow>
          (case load_vcf b of
             Inl e \<Rightarrow> Inl e
           | Inr df \<Rightarrow> Inr (map (\<lambda>i. i + 1) [0..<length (rows df)], df)))"

text \<open>
  The body of \<open>if st.checkbox("Show Variants")\<close>: the \<open>try\<close> statement catches
  \<open>FileNotFoundError\<close> and nothing else. Joining the path to a sample name that is not a
  string raises \<open>TypeError\<close>. The download button is given the file opened in binary
  mode, that is, the bytes of the file.
\<close>

definition show_variants ::
  "(bytes \<Rightarrow> error + frame) \<Rightarrow> (path \<rightharpoonup> bytes) \<Rightarrow> string option \<Rightarrow> element list \<times> error option"
where
  "show_variants load_vcf files sample_filter =
     (case sample_filter of
        None \<Rightarrow> ([], Some TypeError)
      | Some s \<Rightarrow>
          (let vcf_path = ''./data/VCF/'' @ s @ ''.vcf.gz'' in
           case vcf_to_df load_vcf files vcf_path of
             Inl e \<Rightarrow>
               if e = FileNotFoundError then
                 ([Warning ''VCF file in not available'' warning_sign], None)
               else ([], Some e)
           | Inr vcf_df \<Rightarrow>
               (case files vcf_path of
                  None \<Rightarrow>
                    ([Dataframe (fst vcf_df) (snd vcf_df),
                      Warning ''VCF file in not available'' warning_sign], None)
                | Some vcf \<Rightarrow>
                    ([Dataframe (fst vcf_df) (snd vcf_df),
                      DownloadButton ''Download calls in VCF format'' vcf (s @ ''.vcf.gz'')],
                     None))))"

text \<open>The twelve metric cards, in the order the program fills them.\<close>

definition sample_metrics :: "sample list \<Rightarrow> (error + element) list" where
  "sample_metrics dataset =
     [metric ''SNPs'' (series_int (map no_of_SNPs dataset)),
      metric ''GC %'' (series_int (map pct_GC dataset)),
      metric ''Total Sequences'' (series_int (map Total_sequences dataset)),
      metric ''Average sequence length''
        (series_float_round2 (map Average_sequence_length dataset)),
      metric ''Mapped Reads %'' (series_float_round2 (map pct_Reads_mapped dataset)),
      metric ''Average coverage depth''
        (series_float_round2 (map Average_coverage_depth dataset)),
      metric ''Country of Isolation''
        (str_item (map (\<lambda>r. cell_of_text (Country_of_isolation r)) dataset)),
      metric ''Level 1'' (str_item (map level_1 dataset)),
      metric ''Level 2'' (str_item (map level_2 dataset)),
      metric ''Level 3'' (str_item (map level_3 dataset)),
      metric ''Level 4'' (str_item (map level_4 dataset)),
      metric ''Level 5'' (str_item (map level_5 dataset))]"

text \<open>
  \<open>sample_stats()\<close>: \<open>variants\<close> is the state of the checkbox. The result is the
  elements shown and the exception that leaves the function, if any.
\<close>

definition sample_stats ::
  "(bytes \<Rightarrow> error + frame) \<Rightarrow> (path \<rightharpoonup> bytes) \<Rightarrow> sample list \<Rightarrow> string option \<Rightarrow> bool
     \<Rightarrow> element list \<times> error option" where
  "sample_stats load_vcf files dataset sample_filter variants =
     (let selected = select_sample dataset sample_filter;
          (shown, raised) =
            (if variants then show_variants load_vcf files sample_filter else ([], None))
      in case raised of
           Some e \<Rightarrow> (shown, Some e)
         | None \<Rightarrow> (let (ms, r) = run_steps (sample_metrics selected) in (shown @ ms, r)))"

subsection \<open>Example tables\<close>

text \<open>Small tables on which the properties below are evaluated.\<close>

definition ex_sample :: "string option \<Rightarrow> string option \<Rightarrow> sample" where
  "ex_sample s c =
     \<lparr>Sample = s, Country_of_isolation = c, level_1 = Str ''4'', level_2 = Str ''4.9'',
      level_3 = Null, level_4 = Null, level_5 = Null,
      no_of_SNPs = IntV 1200, pct_GC = IntV 65, Total_sequences = IntV 1000000,
      Average_sequence_length = FloatV (301 / 2), pct_Reads_mapped = FloatV (1973 / 20),
      Average_coverage_depth = FloatV 50\<rparr>"

definition ex_dataset :: "sample list" where
  "ex_dataset = [ex_sample (Some ''S1'') (Some ''Peru''), ex_sample (Some ''S2'') None,
                 ex_sample (Some ''S3'') (Some ''Atlantis'')]"


definition ex_countries :: "int country_coords list" where
  "ex_countries =
     [\<lparr>cc_country = Some ''PE'', cc_latitude = - 9, cc_longitude = - 75, cc_name = Some ''Peru''\<rparr>,
      \<lparr>cc_country = Some ''IN'', cc_latitude = 20, cc_longitude = 78, cc_name = Some ''India''\<rparr>]"

definition ex_regions :: "region list" where
  "ex_regions = [\<lparr>rg_name = Some ''Peru'', rg_Region = Some ''Americas''\<rparr>]"

definition ex_shapes :: "nat country_shape list" where
  "ex_shapes = [\<lparr>shp_id = Some ''PER'', shp_name = Some ''Peru'', shp_geometry = Some 1\<rparr>]"

definition ex_load_vcf :: "bytes \<Rightarrow> error + frame" where
  "ex_load_vcf b =
     (if b = [] then Inl (LibraryError ''empty file'')
      else Inr \<lparr>columns = [''CHROM'', ''POS''], rows = [[Str ''NC_000962.3'', Integer 1977]]\<rparr>)"

definition ex_files :: "path \<rightharpoonup> bytes" where
  "ex_files = [''./data/VCF/S1.vcf.gz'' \<mapsto> [CHR 0x1F, CHR 0x8B, CHR 0x08],
               ''./data/VCF/S4.vcf.gz'' \<mapsto> []]"

section \<open>Properties\<close>

subsection \<open>Navigation\<close>

lemma standardize_genotype:
  "standardize_name ''Genotype lineage'' = ''genotype lineage''"
  "standardize_name ''genotype lineage'' = ''genotype lineage''"
  by code_simp+

lemma standardize_phylogeny:
  "standardize_name ''Phylogeny'' = ''phylogeny''"
  "standardize_name ''phylogeny'' = ''phylogeny''"
  by code_simp+

lemma standardize_reference:
  "standardize_name ''Reference dataset'' = ''reference dataset''"
  "standardize_name ''reference dataset'' = ''reference dataset''"
  by code_simp+

lemma standardize_home:
  "standardize_name ''Home'' = ''home''"
  by code_simp

lemmas standardize_simps =
  standardize_genotype standardize_phylogeny standardize_reference standardize_home

text \<open>
  C7. The home page draws exactly three buttons. A run in which only the first is pressed
  ends by switching to the Genotype lineage page, only the second to the Phylogeny page,
  only the third to the Reference dataset page; a run in which none is pressed reaches
  the end of the script, and the page stays.
\<close>

theorem buttons_navigation:
  "fst (buttons clicked) = [''Genotype VCF'', ''Explore Phylogeny'', ''Reference Dataset'']
   \<and> length (fst (buttons clicked)) = 3
   \<and> snd (buttons (\<lambda>l. l = ''Genotype VCF'')) = Some (Rerun (show_pages ! 3))
   \<and> page_name (show_pages ! 3) = ''Genotype lineage''
   \<and> snd (buttons (\<lambda>l. l = ''Explore Phylogeny'')) = Some (Rerun (show_pages ! 2))
   \<and> page_name (show_pages ! 2) = ''Phylogeny''
   \<and> snd (buttons (\<lambda>l. l = ''Reference Dataset'')) = Some (Rerun (show_pages ! 1))
   \<and> page_name (show_pages ! 1) = ''Reference dataset''
   \<and> snd (buttons (\<lambda>l. False)) = None"
  by (simp add: buttons_def switch_page_def show_pages_def standardize_simps)

subsection \<open>Phylogeny\<close>



subsection \<open>Sample counts per country\<close>

lemma sum_group_counts:
  assumes "distinct ks"
  shows "(\<Sum>k\<leftarrow>ks. length (filter (\<lambda>r. key r = Some k \<and> P r) rs)) =
         length (filter (\<lambda>r. key r \<in> Some ` set ks \<and> P r) rs)"
proof (induction rs)
  case Nil
  then show ?case by simp
next
  case (Cons r rs)
  have one: "(\<Sum>k\<leftarrow>ks. (if key r = Some k \<and> P r then 1 else 0 :: nat)) =
        (if key r \<in> Some ` set ks \<and> P r then 1 else 0)"
    using assms
  proof (induction ks)
    case Nil
    then show ?case by simp
  next
    case (Cons a ks)
    then show ?case by auto
  qed
  have "(\<Sum>k\<leftarrow>ks. length (filter (\<lambda>r. key r = Some k \<and> P r) (r # rs))) =
        (\<Sum>k\<leftarrow>ks. (if key r = Some k \<and> P r then 1 else 0) +
                 length (filter (\<lambda>r. key r = Some k \<and> P r) rs))"
    by (rule arg_cong [where f = sum_list], rule map_cong) auto
  also have "\<dots> = (\<Sum>k\<leftarrow>ks. (if key r = Some k \<and> P r then 1 else 0)) +
                  (\<Sum>k\<leftarrow>ks. length (filter (\<lambda>r. key r = Some k \<and> P r) rs))"
    by (simp add: sum_list_addf)
  also have "\<dots> = (if key r \<in> Some ` set ks \<and> P r then 1 else 0) +
                  length (filter (\<lambda>r. key r \<in> Some ` set ks \<and> P r) rs)"
    using one Cons.IH by simp
  also have "\<dots> = length (filter (\<lambda>r. key r \<in> Some ` set ks \<and> P r) (r # rs))"
    by simp
  finally show ?case .
qed

lemma set_group_keys: "set (group_keys ks) = {k. Some k \<in> set ks}"
  by (auto simp: group_keys_def split: option.splits)

lemma distinct_group_keys: "distinct (group_keys ks)"
  by (simp add: group_keys_def)

lemma length_filter_all: "(length (filter P xs) = length xs) = list_all P xs"
proof (induction xs)
  case Nil
  then show ?case by simp
next
  case (Cons x xs)
  show ?case using Cons length_filter_le [of P xs]
    by (auto simp del: length_filter_le)
qed

text \<open>
  C1, as stated, fails: in a table of three rows, one of them without a country of
  isolation, the per-country counts are 1 and 1 and sum to 2.
\<close>

theorem cnt_samples_sum_counterexample:
  "cnt_samples ex_dataset = [(''Atlantis'', 1), (''Peru'', 1)]
   \<and> sum_list (map snd (cnt_samples ex_dataset)) = 2 \<and> length ex_dataset = 3
   \<and> sum_list (map snd (cnt_samples ex_dataset)) \<noteq> length ex_dataset"
  by (simp add: cnt_samples_def group_keys_def ex_dataset_def ex_sample_def)

text \<open>
  C1, amended. The per-country sample counts sum to the number of rows that have both a
  country of isolation and a sample name; the sum is the total row count exactly when no
  row lacks either.
\<close>

theorem cnt_samples_sum:
  "sum_list (map snd (cnt_samples dataset)) =
   length (filter (\<lambda>r. Country_of_isolation r \<noteq> None \<and> Sample r \<noteq> None) dataset)
   \<and> (sum_list (map snd (cnt_samples dataset)) = length dataset) =
     list_all (\<lambda>r. Country_of_isolation r \<noteq> None \<and> Sample r \<noteq> None) dataset"
proof -
  have "sum_list (map snd (cnt_samples dataset)) =
        (\<Sum>k\<leftarrow>group_keys (map Country_of_isolation dataset).
           length (filter (\<lambda>r. Country_of_isolation r = Some k \<and> Sample r \<noteq> None) dataset))"
    by (simp add: cnt_samples_def comp_def)
  also have "\<dots> = length (filter (\<lambda>r. Country_of_isolation r \<in>
        Some ` set (group_keys (map Country_of_isolation dataset)) \<and> Sample r \<noteq> None) dataset)"
    by (rule sum_group_counts) (rule distinct_group_keys)
  also have "\<dots> = length (filter (\<lambda>r. Country_of_isolation r \<noteq> None \<and> Sample r \<noteq> None) dataset)"
    by (rule arg_cong [where f = length], rule filter_cong) (force simp: set_group_keys image_iff)+
  finally show ?thesis by (simp add: length_filter_all)
qed

subsection \<open>The point table\<close>

lemma in_merge_left:
  assumes "(l, r) \<in> set (merge_left lo ro left right)"
  shows "l \<in> set left"
    and "\<And>x. r = Some x \<Longrightarrow> x \<in> set right \<and> ro x = lo l"
proof -
  from assms obtain l' where l': "l' \<in> set left"
    and in_l': "(l, r) \<in> set (case filter (\<lambda>r. ro r = lo l') right of
                     [] \<Rightarrow> [(l', None)] | m # ms \<Rightarrow> map (\<lambda>r. (l', Some r)) (m # ms))"
    by (auto simp: merge_left_def)
  have eq: "l = l'" using in_l' by (auto split: list.splits)
  show "l \<in> set left" using l' eq by simp
  fix x assume "r = Some x"
  with in_l' have "x \<in> set (filter (\<lambda>r. ro r = lo l') right)"
    by (cases "filter (\<lambda>r. ro r = lo l') right") auto
  then show "x \<in> set right \<and> ro x = lo l" using eq by simp
qed

text \<open>
  C10. Every row of the point table that \<open>get_mapping_data\<close> returns comes from a sample of
  the dataset and carries the latitude and longitude of a row of the coordinates table
  whose \<open>name\<close> is that sample's country of isolation, and is not missing; so a sample
  whose country matches no \<open>name\<close> has no row in the point table.
\<close>

theorem smp_data_located:
  "\<forall>p \<in> set (fst (get_mapping_data dataset country_shapes regions countries)).
     (\<exists>c \<in> set countries. cc_name c = Country_of_isolation p \<and> cc_name c \<noteq> None
         \<and> latitude p = Some (cc_latitude c) \<and> longitude p = Some (cc_longitude c))
     \<and> (\<exists>s \<in> set dataset. sample_info.truncate s = sample_info.truncate p)"
proof
  fix p assume "p \<in> set (fst (get_mapping_data dataset country_shapes regions countries))"
  then obtain s c r where
    mr: "((s, c), r) \<in> set (merge_left merged_name rg_name
            (filter (\<lambda>m. merged_name m \<noteq> None)
              (merge_left Country_of_isolation cc_name (map sample_info.truncate dataset) countries))
            regions)"
    and p: "p = \<lparr>Sample = Sample s, Country_of_isolation = Country_of_isolation s,
             level_1 = level_1 s, level_2 = level_2 s, level_3 = level_3 s,
             level_4 = level_4 s, level_5 = level_5 s,
             latitude = map_option cc_latitude c, longitude = map_option cc_longitude c,
             Region = (case r of None \<Rightarrow> None | Some g \<Rightarrow> rg_Region g)\<rparr>"
    by (auto simp: get_mapping_data_def smp_data_of_def Let_def)
  from in_merge_left(1) [OF mr]
  have sc: "(s, c) \<in> set (merge_left Country_of_isolation cc_name
                (map sample_info.truncate dataset) countries)"
    and named: "merged_name (s, c) \<noteq> None" by auto
  from named obtain c' where c: "c = Some c'" and nm: "cc_name c' \<noteq> None"
    by (auto simp: merged_name_def split: option.splits)
  from in_merge_left(2) [OF sc c] have c'_in: "c' \<in> set countries"
    and key: "cc_name c' = Country_of_isolation s" by auto
  from in_merge_left(1) [OF sc] obtain s0 where s0: "s0 \<in> set dataset"
    and s: "s = sample_info.truncate s0" by auto
  have "\<exists>c \<in> set countries. cc_name c = Country_of_isolation p \<and> cc_name c \<noteq> None
         \<and> latitude p = Some (cc_latitude c) \<and> longitude p = Some (cc_longitude c)"
    using c'_in key nm c p by auto
  moreover have "sample_info.truncate s0 = sample_info.truncate p"
    using s p by (simp add: sample_info.truncate_def)
  ultimately show "(\<exists>c \<in> set countries. cc_name c = Country_of_isolation p \<and> cc_name c \<noteq> None
         \<and> latitude p = Some (cc_latitude c) \<and> longitude p = Some (cc_longitude c))
     \<and> (\<exists>s \<in> set dataset. sample_info.truncate s = sample_info.truncate p)"
    using s0 by blast
qed

lemma ex_smp_data:
  "fst (get_mapping_data ex_dataset ex_shapes ex_regions ex_countries) =
     [\<lparr>Sample = Some ''S1'', Country_of_isolation = Some ''Peru'', level_1 = Str ''4'',
       level_2 = Str ''4.9'', level_3 = Null, level_4 = Null, level_5 = Null,
       latitude = Some (- 9), longitude = Some (- 75), Region = Some ''Americas''\<rparr>]"
  by (simp add: get_mapping_data_def smp_data_of_def merge_left_def merged_name_def
      ex_dataset_def ex_sample_def ex_countries_def ex_regions_def sample_info.truncate_def)

theorem smp_data_located_witness:
  "fst (get_mapping_data ex_dataset ex_shapes ex_regions ex_countries) =
     [\<lparr>Sample = Some ''S1'', Country_of_isolation = Some ''Peru'', level_1 = Str ''4'',
       level_2 = Str ''4.9'', level_3 = Null, level_4 = Null, level_5 = Null,
       latitude = Some (- 9), longitude = Some (- 75), Region = Some ''Americas''\<rparr>]
   \<and> (\<exists>c \<in> set ex_countries. cc_name c = Some ''Peru''
         \<and> Some (- 9) = Some (cc_latitude c) \<and> Some (- 75) = Some (cc_longitude c))
   \<and> (\<exists>s \<in> set ex_dataset. Sample s = Some ''S1'')"
  using smp_data_located [of ex_dataset ex_shapes ex_regions ex_countries]
  by (simp add: ex_smp_data sample_info.truncate_def) (simp add: ex_dataset_def ex_sample_def ex_countries_def)

subsection \<open>Sample statistics\<close>

lemma series_int_not_single: "length xs \<noteq> 1 \<Longrightarrow> series_int xs = Inl TypeError"
  by (induction xs rule: series_int.induct) auto

lemma series_int_errors: "series_int xs \<noteq> Inl FileNotFoundError"
  by (induction xs rule: series_int.induct) auto

lemma series_float_round2_errors: "series_float_round2 xs \<noteq> Inl FileNotFoundError"
  by (induction xs rule: series_float_round2.induct) auto

lemma str_item_errors: "str_item xs \<noteq> Inl FileNotFoundError"
  by (induction xs rule: series_item.induct) (auto simp: str_item_def)

lemma metric_errors:
  "Inl FileNotFoundError \<noteq> metric label (series_int xs)"
  "Inl FileNotFoundError \<noteq> metric label (series_float_round2 xs)"
  "Inl FileNotFoundError \<noteq> metric label (str_item ys)"
  using series_int_errors [of xs] series_float_round2_errors [of xs] str_item_errors [of ys]
  by (auto simp: metric_def split: sum.splits)

lemma run_steps_errors:
  "Inl FileNotFoundError \<notin> set steps \<Longrightarrow> snd (run_steps steps) \<noteq> Some FileNotFoundError"
  by (induction steps rule: run_steps.induct) (auto split: prod.splits)

lemma sample_metrics_errors: "snd (run_steps (sample_metrics d)) \<noteq> Some FileNotFoundError"
  by (rule run_steps_errors)
    (simp add: sample_metrics_def metric_errors)

lemma sample_metrics_not_single:
  "length d \<noteq> 1 \<Longrightarrow> run_steps (sample_metrics d) = ([], Some TypeError)"
  by (simp add: sample_metrics_def series_int_not_single metric_def)



lemma sample_stats_quiet:
  "sample_stats load_vcf files dataset sample_filter False =
     run_steps (sample_metrics (select_sample dataset sample_filter))"
  by (simp add: sample_stats_def Let_def split: prod.splits)

lemma show_variants_missing:
  "files (''./data/VCF/'' @ s @ ''.vcf.gz'') = None \<Longrightarrow>
   show_variants load_vcf files (Some s) =
     ([Warning ''VCF file in not available'' warning_sign], None)"
  by (simp add: show_variants_def vcf_to_df_def)

lemma show_variants_present:
  "files (''./data/VCF/'' @ s @ ''.vcf.gz'') = Some vcf \<Longrightarrow> load_vcf vcf = Inr df \<Longrightarrow>
   show_variants load_vcf files (Some s) =
     ([Dataframe (map (\<lambda>i. i + 1) [0..<length (rows df)]) df,
       DownloadButton ''Download calls in VCF format'' vcf (s @ ''.vcf.gz'')], None)"
  by (simp add: show_variants_def vcf_to_df_def)


lemma show_variants_downloads:
  "DownloadButton l d f \<in> set (fst (show_variants load_vcf files sample_filter)) \<Longrightarrow>
   \<exists>s. sample_filter = Some s \<and> files (''./data/VCF/'' @ s @ ''.vcf.gz'') = Some d
        \<and> f = s @ ''.vcf.gz''"
  by (auto simp: show_variants_def Let_def split: option.splits sum.splits if_splits)

lemma metric_no_download: "metric label v \<noteq> Inr (DownloadButton l d f)"
  by (cases v) (auto simp: metric_def)

lemma run_steps_elements: "x \<in> set (fst (run_steps steps)) \<Longrightarrow> Inr x \<in> set steps"
  by (induction steps rule: run_steps.induct) (auto split: prod.splits)

lemma sample_metrics_no_download:
  "DownloadButton l d f \<notin> set (fst (run_steps (sample_metrics sel)))"
proof
  assume "DownloadButton l d f \<in> set (fst (run_steps (sample_metrics sel)))"
  then have "Inr (DownloadButton l d f) \<in> set (sample_metrics sel)"
    by (rule run_steps_elements)
  then show False by (simp add: sample_metrics_def metric_no_download [symmetric])
qed

lemma sample_stats_shown:
  "set (fst (sample_stats load_vcf files dataset sample_filter variants)) \<subseteq>
     (if variants then set (fst (show_variants load_vcf files sample_filter)) else {})
     \<union> set (fst (run_steps (sample_metrics (select_sample dataset sample_filter))))"
  by (auto simp: sample_stats_def Let_def split: prod.splits option.splits if_splits)

lemma sample_stats_after_variants:
  "show_variants load_vcf files sample_filter = (shown, None) \<Longrightarrow>
   sample_stats load_vcf files dataset sample_filter True =
     (shown @ fst (run_steps (sample_metrics (select_sample dataset sample_filter))),
      snd (run_steps (sample_metrics (select_sample dataset sample_filter))))"
  by (simp add: sample_stats_def Let_def split: prod.splits)

text \<open>
  C4. When the variants of a selected sample are asked for and the file
  \<open>./data/VCF/<sample>.vcf.gz\<close> does not exist, \<open>sample_stats\<close> shows the warning, no
  \<open>FileNotFoundError\<close> leaves it, and the run ends as it does when the variants are not
  asked for.
\<close>

theorem missing_vcf_warns:
  assumes "files (''./data/VCF/'' @ s @ ''.vcf.gz'') = None"
  shows "Warning ''VCF file in not available'' warning_sign
           \<in> set (fst (sample_stats load_vcf files dataset (Some s) True))
         \<and> snd (sample_stats load_vcf files dataset (Some s) True) \<noteq> Some FileNotFoundError
         \<and> snd (sample_stats load_vcf files dataset (Some s) True) =
           snd (sample_stats load_vcf files dataset (Some s) False)"
  using sample_stats_after_variants
      [OF show_variants_missing [where files = files and s = s, OF assms]]
    sample_metrics_errors [of "select_sample dataset (Some s)"]
  by (simp add: sample_stats_quiet)

theorem missing_vcf_warns_witness:
  "ex_files ''./data/VCF/S3.vcf.gz'' = None
   \<and> sample_stats ex_load_vcf ex_files ex_dataset (Some ''S3'') True =
     ([Warning ''VCF file in not available'' warning_sign,
       Metric ''SNPs'' (IntValue 1200), Metric ''GC %'' (IntValue 65),
       Metric ''Total Sequences'' (IntValue 1000000),
       Metric ''Average sequence length'' (Round2Value (FloatV (301 / 2))),
       Metric ''Mapped Reads %'' (Round2Value (FloatV (1973 / 20))),
       Metric ''Average coverage depth'' (Round2Value (FloatV 50)),
       Metric ''Country of Isolation'' (StrValue ''Atlantis''),
       Metric ''Level 1'' (StrValue ''4''), Metric ''Level 2'' (StrValue ''4.9''),
       Metric ''Level 3'' (StrValue ''nan''), Metric ''Level 4'' (StrValue ''nan''),
       Metric ''Level 5'' (StrValue ''nan'')], None)
   \<and> Warning ''VCF file in not available'' warning_sign
        \<in> set (fst (sample_stats ex_load_vcf ex_files ex_dataset (Some ''S3'') True))"
proof -
  have f: "ex_files (''./data/VCF/'' @ ''S3'' @ ''.vcf.gz'') = None"
    by (simp add: ex_files_def)
  have r: "sample_stats ex_load_vcf ex_files ex_dataset (Some ''S3'') True =
     ([Warning ''VCF file in not available'' warning_sign,
       Metric ''SNPs'' (IntValue 1200), Metric ''GC %'' (IntValue 65),
       Metric ''Total Sequences'' (IntValue 1000000),
       Metric ''Average sequence length'' (Round2Value (FloatV (301 / 2))),
       Metric ''Mapped Reads %'' (Round2Value (FloatV (1973 / 20))),
       Metric ''Average coverage depth'' (Round2Value (FloatV 50)),
       Metric ''Country of Isolation'' (StrValue ''Atlantis''),
       Metric ''Level 1'' (StrValue ''4''), Metric ''Level 2'' (StrValue ''4.9''),
       Metric ''Level 3'' (StrValue ''nan''), Metric ''Level 4'' (StrValue ''nan''),
       Metric ''Level 5'' (StrValue ''nan'')], None)"
    by (simp add: sample_stats_def show_variants_def vcf_to_df_def ex_files_def
        select_sample_def ex_dataset_def ex_sample_def sample_metrics_def metric_def
        str_item_def cell_of_text_def)
  from missing_vcf_warns [where files = ex_files and s = "''S3''", OF f] f r
  show ?thesis by simp
qed

text \<open>
  C6. When the variants of a selected sample are asked for and its VCF file exists and
  loads, the download button holds the bytes of that file and the file name
  \<open><sample>.vcf.gz\<close>; and a download button that \<open>sample_stats\<close> shows always holds the
  bytes of the file of the selected sample.
\<close>

theorem vcf_download_passthrough:
  assumes "files (''./data/VCF/'' @ s @ ''.vcf.gz'') = Some vcf"
    and "load_vcf vcf = Inr df"
    and "DownloadButton l d f
           \<in> set (fst (sample_stats load_vcf' files' dataset' sample_filter variants))"
  shows "DownloadButton ''Download calls in VCF format'' vcf (s @ ''.vcf.gz'')
           \<in> set (fst (sample_stats load_vcf files dataset (Some s) True))
         \<and> (\<exists>s'. sample_filter = Some s' \<and> files' (''./data/VCF/'' @ s' @ ''.vcf.gz'') = Some d
                \<and> f = s' @ ''.vcf.gz'')"
proof
  show "DownloadButton ''Download calls in VCF format'' vcf (s @ ''.vcf.gz'')
           \<in> set (fst (sample_stats load_vcf files dataset (Some s) True))"
    using sample_stats_after_variants
      [OF show_variants_present
         [where files = files and s = s and load_vcf = load_vcf and vcf = vcf and df = df,
          OF assms(1) assms(2)]]
    by simp
  from assms(3) sample_stats_shown [of load_vcf' files' dataset' sample_filter variants]
  have "DownloadButton l d f \<in> set (fst (show_variants load_vcf' files' sample_filter))"
    using sample_metrics_no_download [of l d f "select_sample dataset' sample_filter"]
    by (auto split: if_splits)
  then show "\<exists>s'. sample_filter = Some s' \<and> files' (''./data/VCF/'' @ s' @ ''.vcf.gz'') = Some d
                \<and> f = s' @ ''.vcf.gz''"
    by (rule show_variants_downloads)
qed

theorem vcf_download_passthrough_witness:
  "ex_files ''./data/VCF/S1.vcf.gz'' = Some [CHR 0x1F, CHR 0x8B, CHR 0x08]
   \<and> take 2 (fst (sample_stats ex_load_vcf ex_files ex_dataset (Some ''S1'') True)) =
       [Dataframe [1] \<lparr>columns = [''CHROM'', ''POS''],
                       rows = [[Str ''NC_000962.3'', Integer 1977]]\<rparr>,
        DownloadButton ''Download calls in VCF format'' [CHR 0x1F, CHR 0x8B, CHR 0x08]
          ''S1.vcf.gz'']
   \<and> DownloadButton ''Download calls in VCF format'' [CHR 0x1F, CHR 0x8B, CHR 0x08]
        ''S1.vcf.gz'' \<in> set (fst (sample_stats ex_load_vcf ex_files ex_dataset (Some ''S1'') True))"
proof -
  have f: "ex_files (''./data/VCF/'' @ ''S1'' @ ''.vcf.gz'') = Some [CHR 0x1F, CHR 0x8B, CHR 0x08]"
    by (simp add: ex_files_def)
  have l: "ex_load_vcf [CHR 0x1F, CHR 0x8B, CHR 0x08] =
             Inr \<lparr>columns = [''CHROM'', ''POS''], rows = [[Str ''NC_000962.3'', Integer 1977]]\<rparr>"
    by (simp add: ex_load_vcf_def)
  have t: "take 2 (fst (sample_stats ex_load_vcf ex_files ex_dataset (Some ''S1'') True)) =
       [Dataframe [1] \<lparr>columns = [''CHROM'', ''POS''],
                       rows = [[Str ''NC_000962.3'', Integer 1977]]\<rparr>,
        DownloadButton ''Download calls in VCF format'' [CHR 0x1F, CHR 0x8B, CHR 0x08]
          ''S1.vcf.gz'']"
    using sample_stats_after_variants
      [OF show_variants_present
         [where files = ex_files and s = "''S1''" and load_vcf = ex_load_vcf
            and vcf = "[CHR 0x1F, CHR 0x8B, CHR 0x08]", OF f l]]
    by simp
  then have m: "DownloadButton ''Download calls in VCF format'' [CHR 0x1F, CHR 0x8B, CHR 0x08]
        ''S1.vcf.gz'' \<in> set (fst (sample_stats ex_load_vcf ex_files ex_dataset (Some ''S1'') True))"
    by (metis in_set_takeD list.set_intros(1) list.set_intros(2))
  from vcf_download_passthrough
         [where files = ex_files and s = "''S1''" and load_vcf = ex_load_vcf
            and vcf = "[CHR 0x1F, CHR 0x8B, CHR 0x08]", OF f l m] f t
  show ?thesis by simp
qed

text \<open>
  C9. When the selected sample name matches no row or more than one row of the table, an
  exception leaves \<open>sample_stats\<close>; with the variants not asked for it is the
  \<open>TypeError\<close> of the first metric, and nothing is shown.
\<close>

theorem sample_stats_needs_single_row:
  assumes "length (select_sample dataset sample_filter) \<noteq> 1"
  shows "snd (sample_stats load_vcf files dataset sample_filter variants) \<noteq> None
         \<and> sample_stats load_vcf files dataset sample_filter False = ([], Some TypeError)"
  using sample_metrics_not_single [OF assms]
  by (auto simp: sample_stats_def Let_def split: prod.splits option.splits)

theorem sample_stats_needs_single_row_witness:
  "length (select_sample (ex_dataset @ ex_dataset) (Some ''S1'')) = 2
   \<and> sample_stats ex_load_vcf ex_files (ex_dataset @ ex_dataset) (Some ''S1'') False =
       ([], Some TypeError)
   \<and> length (select_sample ex_dataset (Some ''S9'')) = 0
   \<and> sample_stats ex_load_vcf ex_files ex_dataset (Some ''S9'') False = ([], Some TypeError)"
proof -
  have a: "length (select_sample (ex_dataset @ ex_dataset) (Some ''S1'')) = 2"
    and b: "length (select_sample ex_dataset (Some ''S9'')) = 0"
    by (simp_all add: select_sample_def ex_dataset_def ex_sample_def)
  from a b
    sample_stats_needs_single_row [of "ex_dataset @ ex_dataset" "Some ''S1''" ex_load_vcf ex_files False]
    sample_stats_needs_single_row [of ex_dataset "Some ''S9''" ex_load_vcf ex_files False]
  show ?thesis by simp
qed

subsection \<open>Error handling\<close>

















end
